theory Spec2Isabelle
  imports Complex_Main "HOL-Library.Multiset"
begin

section \<open>Python values, errors and string primitives\<close>

text \<open>
  The notebook writes four Python files: \<^verbatim>\<open>preprocessing.py\<close>, \<^verbatim>\<open>train_and_deploy.py\<close>,
  \<^verbatim>\<open>evaluate.py\<close> and \<^verbatim>\<open>serving_lambda.py\<close>. Their own code is embedded below. Calls into
  pandas, scikit-learn, numpy, boto3, \<^verbatim>\<open>json\<close> and the built-ins \<^verbatim>\<open>float\<close> and \<^verbatim>\<open>str\<close> are
  parameters of the embedding: a library call that can raise returns a sum or an option.
  The frame operations of pandas that only select, drop or look up rows and columns are
  written out with their default arguments. Python's doubles are a type variable \<open>'f\<close>; no
  arithmetic on them is modelled. An exception is a value of \<open>py_error\<close>.
\<close>

datatype py_error =
    ValueError string        \<comment> \<open>a \<^verbatim>\<open>ValueError\<close> raised by the scripts themselves, with its message\<close>
  | FloatValueError string   \<comment> \<open>the \<^verbatim>\<open>ValueError\<close> of \<^verbatim>\<open>float(s)\<close> on a text that is no float literal\<close>
  | TypeError                \<comment> \<open>subscripting, iterating or decoding a value of the wrong type\<close>
  | KeyError string          \<comment> \<open>a missing dictionary key\<close>
  | JSONDecodeError string   \<comment> \<open>\<^verbatim>\<open>json.loads\<close> on a text that is not JSON\<close>
  | FileNotFoundError string \<comment> \<open>opening a path that does not exist\<close>
  | LibraryError string      \<comment> \<open>any exception raised inside a library call\<close>

text \<open>\<^verbatim>\<open>s.split(sep)\<close> for a one-character separator: always at least one field.\<close>

fun split_py :: "char \<Rightarrow> string \<Rightarrow> string list" where
  "split_py sep [] = [[]]"
| "split_py sep (c # cs) =
     (if c = sep then [] # split_py sep cs
      else (case split_py sep cs of
              [] \<Rightarrow> [[c]]
            | fld # flds \<Rightarrow> (c # fld) # flds))"

text \<open>\<^verbatim>\<open>sep.join(xs)\<close>.\<close>

fun join_py :: "string \<Rightarrow> string list \<Rightarrow> string" where
  "join_py sep [] = []"
| "join_py sep [x] = x"
| "join_py sep (x # y # ys) = x @ sep @ join_py sep (y # ys)"

text \<open>\<^verbatim>\<open>s.strip(chars)\<close>: drops leading and trailing characters that occur in \<open>chars\<close>.\<close>

definition strip_py :: "string \<Rightarrow> string \<Rightarrow> string" where
  "strip_py chars s =
     rev (dropWhile (\<lambda>c. c \<in> set chars) (rev (dropWhile (\<lambda>c. c \<in> set chars) s)))"

section \<open>The serving functions of \<^verbatim>\<open>train_and_deploy.py\<close>\<close>

text \<open>
  \<^verbatim>\<open>list(map(float, fields))\<close>: the fields are converted from left to right and the first
  one that \<^verbatim>\<open>float\<close> rejects raises. \<open>float_py\<close> is Python's \<^verbatim>\<open>float\<close> on a string.
\<close>

fun map_float :: "(string \<Rightarrow> 'f option) \<Rightarrow> string list \<Rightarrow> py_error + 'f list" where
  "map_float float_py [] = Inr []"
| "map_float float_py (s # ss) =
     (case float_py s of
        None \<Rightarrow> Inl (FloatValueError s)
      | Some x \<Rightarrow>
          (case map_float float_py ss of
             Inl e \<Rightarrow> Inl e
           | Inr xs \<Rightarrow> Inr (x # xs)))"

text \<open>The \<^verbatim>\<open>for r in request_body.split('|')\<close> loop of \<^verbatim>\<open>input_fn\<close>, with its accumulator.\<close>

fun input_loop ::
  "(string \<Rightarrow> 'f option) \<Rightarrow> string list \<Rightarrow> 'f list list \<Rightarrow> py_error + 'f list list" where
  "input_loop float_py [] samples = Inr samples"
| "input_loop float_py (r # rs) samples =
     (case map_float float_py (split_py CHR '','' r) of
        Inl e \<Rightarrow> Inl e
      | Inr xs \<Rightarrow> input_loop float_py rs (samples @ [xs]))"

text \<open>
  \<^verbatim>\<open>input_fn(request_body, content_type)\<close>. \<open>np_array\<close> is \<^verbatim>\<open>np.array\<close> on a list of
  rows: the array it builds, or the exception it raises (on rows of unequal length numpy
  raises a \<^verbatim>\<open>ValueError\<close> from version 1.24 on, and builds an array of list objects
  before).
\<close>

definition input_fn ::
  "(string \<Rightarrow> 'f option) \<Rightarrow> ('f list list \<Rightarrow> py_error + 'a) \<Rightarrow> string \<Rightarrow> string \<Rightarrow>
     py_error + 'a" where
  "input_fn float_py np_array request_body content_type =
     (if content_type = ''text/csv'' then
        (case input_loop float_py (split_py CHR ''|'' request_body) [] of
           Inl e \<Rightarrow> Inl e
         | Inr samples \<Rightarrow> np_array samples)
      else Inl (ValueError ''Thie model only supports text/csv input''))"

section \<open>\<^verbatim>\<open>serving_lambda.py\<close>\<close>

text \<open>A decoded JSON value, over the numbers \<open>'n\<close> of the decoder.\<close>

datatype 'n json =
    JNull
  | JBool bool
  | JNum 'n
  | JStr string
  | JArr "'n json list"
  | JObj "(string \<times> 'n json) list"

text \<open>\<^verbatim>\<open>for x in v\<close>: a list yields its elements, a string its characters, a dictionary its
  keys; anything else is not iterable.\<close>

fun iter_py :: "'n json \<Rightarrow> py_error + 'n json list" where
  "iter_py (JArr xs) = Inr xs"
| "iter_py (JStr s) = Inr (map (\<lambda>c. JStr [c]) s)"
| "iter_py (JObj kvs) = Inr (map (\<lambda>kv. JStr (fst kv)) kvs)"
| "iter_py _ = Inl TypeError"

text \<open>\<^verbatim>\<open>v[key]\<close> for a string key: only a dictionary can be subscripted by a string.\<close>

fun getitem_py :: "'n json \<Rightarrow> string \<Rightarrow> py_error + 'n json" where
  "getitem_py (JObj kvs) key =
     (case map_of kvs key of None \<Rightarrow> Inl (KeyError key) | Some v \<Rightarrow> Inr v)"
| "getitem_py _ key = Inl TypeError"

text \<open>The request \<^verbatim>\<open>invoke_endpoint\<close> receives.\<close>

record request =
  EndpointName :: string
  ContentType :: string
  Body :: string

text \<open>
  What the module takes from outside: the environment variable \<^verbatim>\<open>ENDPOINT_NAME\<close>, the
  SageMaker runtime (\<open>invoke_endpoint\<close> gives the decoded body
  \<^verbatim>\<open>response['Body'].read().decode('utf-8')\<close> or the exception of the call), \<^verbatim>\<open>json.loads\<close> on
  a string, and \<^verbatim>\<open>str\<close> on a decoded value.
\<close>

record 'n lambda_env =
  endpoint_name :: string
  invoke_endpoint :: "request \<Rightarrow> py_error + string"
  json_loads :: "string \<Rightarrow> py_error + 'n json"
  str_py :: "'n json \<Rightarrow> string"

text \<open>\<^verbatim>\<open>",".join([str(n) for n in sample])\<close>.\<close>

definition join_sample :: "('n json \<Rightarrow> string) \<Rightarrow> 'n json \<Rightarrow> py_error + string" where
  "join_sample str sample =
     (case iter_py sample of
        Inl e \<Rightarrow> Inl e
      | Inr ns \<Rightarrow> Inr (join_py '','' (map str ns)))"

text \<open>The loop \<^verbatim>\<open>for sample in payload: body += ... + "|"\<close> over the samples left.\<close>

fun body_loop :: "('n json \<Rightarrow> string) \<Rightarrow> 'n json list \<Rightarrow> string \<Rightarrow> py_error + string" where
  "body_loop str [] body = Inr body"
| "body_loop str (sample # rest) body =
     (case join_sample str sample of
        Inl e \<Rightarrow> Inl e
      | Inr line \<Rightarrow> body_loop str rest (body @ line @ ''|''))"

text \<open>The formatting block: the loop from the empty string, then \<^verbatim>\<open>body = body[:-1]\<close>.\<close>

definition format_body :: "('n json \<Rightarrow> string) \<Rightarrow> 'n json \<Rightarrow> py_error + string" where
  "format_body str payload =
     (case iter_py payload of
        Inl e \<Rightarrow> Inl e
      | Inr samples \<Rightarrow>
          (case body_loop str samples [] of
             Inl e \<Rightarrow> Inl e
           | Inr body \<Rightarrow> Inr (butlast body)))"

text \<open>
  \<^verbatim>\<open>lambda_handler(event, context)\<close>. The event is the decoded JSON the runtime passes, so
  \<^verbatim>\<open>json.loads(json.dumps(event))\<close> is the event again. The result pairs the requests sent to
  the endpoint with the value returned or the exception raised. The \<^verbatim>\<open>print\<close> calls are left
  out.
\<close>

definition lambda_handler :: "'n lambda_env \<Rightarrow> 'n json \<Rightarrow> request list \<times> (py_error + string)" where
  "lambda_handler env event =
     (let data = event in
      case getitem_py data ''data'' of
        Inl e \<Rightarrow> ([], Inl e)
      | Inr d \<Rightarrow>
          (case (case d of JStr s \<Rightarrow> json_loads env s | _ \<Rightarrow> Inl TypeError) of
             Inl e \<Rightarrow> ([], Inl e)
           | Inr payload \<Rightarrow>
               (case format_body (str_py env) payload of
                  Inl e \<Rightarrow> ([], Inl e)
                | Inr body \<Rightarrow>
                    (let req = \<lparr>EndpointName = endpoint_name env,
                                ContentType = ''text/csv'',
                                Body = body\<rparr>
                     in case invoke_endpoint env req of
                          Inl e \<Rightarrow> ([req], Inl e)
                        | Inr response \<Rightarrow>
                            ([req], Inr (strip_py [CHR 0x27] (strip_py ''[]'' response)))))))"

section \<open>Files, frames and the library interface of the scripts\<close>

text \<open>
  The file system of a container: the content stored under each path. Contents are the
  type variable \<open>'b\<close>; only library calls read or build them. The directories the jobs
  write to exist (SageMaker creates them), so writing a file is a map update. A path
  relative to the working directory is keyed by its relative name.
\<close>

type_synonym 'b fs = "string \<rightharpoonup> 'b"

text \<open>\<^verbatim>\<open>os.path.join(a, b)\<close> on POSIX.\<close>

definition os_path_join :: "string \<Rightarrow> string \<Rightarrow> string" where
  "os_path_join a b =
     (if b \<noteq> [] \<and> hd b = CHR ''/'' then b
      else if a = [] \<or> last a = CHR ''/'' then a @ b
      else a @ ''/'' @ b)"

text \<open>
  A pandas frame: its column names and its rows; a cell is \<open>None\<close> where pandas holds a
  missing value (NaN).
\<close>

record 'v frame =
  col_names :: "string list"
  rows :: "'v option list list"

text \<open>
  \<^verbatim>\<open>pd.DataFrame(data=df, columns=cols)\<close>: the frame reindexed to the columns \<open>cols\<close>, in
  that order; a column \<open>df\<close> does not have is all missing.
\<close>

definition select_columns :: "string list \<Rightarrow> 'v frame \<Rightarrow> 'v frame" where
  "select_columns cols df =
     \<lparr>col_names = cols,
      rows = map (\<lambda>r. map (\<lambda>c. case map_of (zip (col_names df) r) c of
                                   None \<Rightarrow> None
                                 | Some v \<Rightarrow> v) cols) (rows df)\<rparr>"

text \<open>\<^verbatim>\<open>df.dropna()\<close> with its defaults: a row with any missing cell is dropped.\<close>

definition dropna :: "'v frame \<Rightarrow> 'v frame" where
  "dropna df = df\<lparr>rows := filter (\<lambda>r. None \<notin> set r) (rows df)\<rparr>"

text \<open>\<^verbatim>\<open>df.drop_duplicates()\<close> with its defaults: of equal rows the first is kept.\<close>

fun keep_first :: "'a list \<Rightarrow> 'a list \<Rightarrow> 'a list" where
  "keep_first seen [] = []"
| "keep_first seen (r # rs) =
     (if r \<in> set seen then keep_first seen rs else r # keep_first (r # seen) rs)"

definition drop_duplicates :: "'v frame \<Rightarrow> 'v frame" where
  "drop_duplicates df = df\<lparr>rows := keep_first [] (rows df)\<rparr>"

text \<open>\<^verbatim>\<open>df.drop(columns=c)\<close>: a \<^verbatim>\<open>KeyError\<close> when the frame has no such column.\<close>

definition drop_column :: "string \<Rightarrow> 'v frame \<Rightarrow> py_error + 'v frame" where
  "drop_column c df =
     (if c \<notin> set (col_names df) then Inl (KeyError c)
      else Inr \<lparr>col_names = filter (\<lambda>n. n \<noteq> c) (col_names df),
                rows = map (\<lambda>r. map snd (filter (\<lambda>nv. fst nv \<noteq> c) (zip (col_names df) r)))
                           (rows df)\<rparr>)"

text \<open>\<^verbatim>\<open>df[c]\<close>: the cells of column \<open>c\<close>, one per row.\<close>

definition get_column :: "string \<Rightarrow> 'v frame \<Rightarrow> py_error + 'v option list" where
  "get_column c df =
     (if c \<notin> set (col_names df) then Inl (KeyError c)
      else Inr (map (\<lambda>r. case map_of (zip (col_names df) r) c of
                            None \<Rightarrow> None
                          | Some v \<Rightarrow> v) (rows df)))"

text \<open>The estimators the scripts construct, with the arguments they pass.\<close>

datatype transformer = StandardScaler | OneHotEncoder (sparse: bool)

type_synonym column_transformer = "(string list \<times> transformer) list"

datatype estimator = LogisticRegression (class_weight: string) (solver: string)

text \<open>
  The library calls of the three scripts. \<open>'b\<close> is a file's content, \<open>'v\<close> a CSV cell,
  \<open>'f\<close> a double, \<open>'m\<close> a fitted model, \<open>'p\<close> an array of predictions.
  \<^item> \<open>double q\<close>: the double a decimal literal of value \<open>q\<close> denotes.
  \<^item> \<open>parse_csv header b\<close>: pandas' CSV parser on the content \<open>b\<close>; \<open>header\<close> is
    \<open>False\<close> for \<^verbatim>\<open>header=None\<close>.
  \<^item> \<open>fit_transform ct df\<close>: \<^verbatim>\<open>make_column_transformer(...).fit_transform(df)\<close>.
  \<^item> \<open>train_test_split X y test_size random_state\<close>, returning
    \<open>(X_train, X_test, y_train, y_test)\<close>.
  \<^item> \<open>frame_to_csv X header index\<close> and \<open>series_to_csv y header index\<close>: the text
    \<^verbatim>\<open>to_csv\<close> writes.
  \<^item> \<open>fit est X y\<close>: the estimator after \<^verbatim>\<open>est.fit(X, y)\<close>.
  \<^item> \<open>joblib_dump\<close>, \<open>joblib_load\<close>: the serialised model and back.
  \<^item> \<open>tar_extractall b\<close>: the files \<^verbatim>\<open>tarfile.open(...).extractall(path=".")\<close> writes
    for the archive \<open>b\<close>, in order, each with its path in the working directory.
  \<^item> \<open>predict m X\<close>, \<open>classification_report y p output_dict\<close> (the items of the
    dictionary, in order), \<open>accuracy_score y p\<close>.
  \<^item> \<open>json_dumps\<close>, and \<open>text_file s\<close>: the content of a text file holding \<open>s\<close>.

  The calls that parse, load, fit, split or score can raise and return a sum. The
  serialisers (\<^verbatim>\<open>to_csv\<close>, \<^verbatim>\<open>joblib.dump\<close>, \<^verbatim>\<open>json.dumps\<close>) are taken to succeed on what
  the scripts pass them.
\<close>

record ('b, 'v, 'f, 'm, 'p) py_lib =
  double :: "rat \<Rightarrow> 'f"
  parse_csv :: "bool \<Rightarrow> 'b \<Rightarrow> py_error + 'v frame"
  fit_transform :: "column_transformer \<Rightarrow> 'v frame \<Rightarrow> py_error + 'f list list"
  train_test_split ::
    "'f list list \<Rightarrow> 'v option list \<Rightarrow> 'f \<Rightarrow> nat \<Rightarrow>
       py_error + ('f list list \<times> 'f list list \<times> 'v option list \<times> 'v option list)"
  frame_to_csv :: "'f list list \<Rightarrow> bool \<Rightarrow> bool \<Rightarrow> 'b"
  series_to_csv :: "'v option list \<Rightarrow> bool \<Rightarrow> bool \<Rightarrow> 'b"
  fit :: "estimator \<Rightarrow> 'v frame \<Rightarrow> 'v frame \<Rightarrow> py_error + 'm"
  joblib_dump :: "'m \<Rightarrow> 'b"
  joblib_load :: "'b \<Rightarrow> py_error + 'm"
  tar_extractall :: "'b \<Rightarrow> py_error + (string \<times> 'b) list"
  predict :: "'m \<Rightarrow> 'v frame \<Rightarrow> py_error + 'p"
  classification_report :: "'v frame \<Rightarrow> 'p \<Rightarrow> bool \<Rightarrow> py_error + (string \<times> 'f json) list"
  accuracy_score :: "'v frame \<Rightarrow> 'p \<Rightarrow> py_error + 'f"
  json_dumps :: "'f json \<Rightarrow> string"
  text_file :: "string \<Rightarrow> 'b"

text \<open>\<^verbatim>\<open>pd.read_csv(path, ...)\<close>: opens the file, then parses it.\<close>

definition pd_read_csv ::
  "('b, 'v, 'f, 'm, 'p) py_lib \<Rightarrow> bool \<Rightarrow> 'b fs \<Rightarrow> string \<Rightarrow> py_error + 'v frame" where
  "pd_read_csv lib header fs path =
     (case fs path of
        None \<Rightarrow> Inl (FileNotFoundError path)
      | Some b \<Rightarrow> parse_csv lib header b)"

section \<open>\<^verbatim>\<open>preprocessing.py\<close>\<close>

definition features :: "string list" where
  "features = [''bill_length_mm'', ''bill_depth_mm'', ''flipper_length_mm'', ''species'', ''island'']"

definition target :: string where
  "target = ''sex''"

definition columns :: "string list" where
  "columns = features @ [target]"

definition preprocess_pipeline :: column_transformer where
  "preprocess_pipeline =
     [([''bill_length_mm'', ''bill_depth_mm'', ''flipper_length_mm''], StandardScaler),
      ([''species'', ''island''], OneHotEncoder False)]"

definition train_features_output_path :: string where
  "train_features_output_path = os_path_join ''/opt/ml/processing/train'' ''train_features.csv''"

definition train_labels_output_path :: string where
  "train_labels_output_path = os_path_join ''/opt/ml/processing/train'' ''train_labels.csv''"

definition test_features_output_path :: string where
  "test_features_output_path = os_path_join ''/opt/ml/processing/test'' ''test_features.csv''"

definition test_labels_output_path :: string where
  "test_labels_output_path = os_path_join ''/opt/ml/processing/test'' ''test_labels.csv''"

text \<open>
  The script body. \<open>arg\<close> is the value of \<^verbatim>\<open>--train-test-split\<close> when the command line
  gives one; \<^verbatim>\<open>argparse\<close> supplies the default. The result is the file system the run
  leaves and the exception that ended it, if any.
\<close>

definition preprocessing ::
  "('b, 'v, 'f, 'm, 'p) py_lib \<Rightarrow> 'f option \<Rightarrow> 'b fs \<Rightarrow> 'b fs \<times> py_error option" where
  "preprocessing lib arg fs =
     (let split = (case arg of None \<Rightarrow> double lib (3 / 10) | Some v \<Rightarrow> v);
          input_data_path = os_path_join ''/opt/ml/processing/input'' ''penguins.csv''
      in case pd_read_csv lib True fs input_data_path of
           Inl e \<Rightarrow> (fs, Some e)
         | Inr df0 \<Rightarrow>
             (let df = drop_duplicates (dropna (select_columns columns df0))
              in case drop_column target df of
                   Inl e \<Rightarrow> (fs, Some e)
                 | Inr feature_df \<Rightarrow>
                     (case fit_transform lib preprocess_pipeline feature_df of
                        Inl e \<Rightarrow> (fs, Some e)
                      | Inr X \<Rightarrow>
                          (case get_column target df of
                             Inl e \<Rightarrow> (fs, Some e)
                           | Inr y \<Rightarrow>
                               (case train_test_split lib X y split 42 of
                                  Inl e \<Rightarrow> (fs, Some e)
                                | Inr (X_train, X_test, y_train, y_test) \<Rightarrow>
                                    (let fs1 = fs(train_features_output_path \<mapsto>
                                                   frame_to_csv lib X_train False False);
                                         fs2 = fs1(test_features_output_path \<mapsto>
                                                   frame_to_csv lib X_test False False);
                                         fs3 = fs2(train_labels_output_path \<mapsto>
                                                   series_to_csv lib y_train False False);
                                         fs4 = fs3(test_labels_output_path \<mapsto>
                                                   series_to_csv lib y_test False False)
                                     in (fs4, None)))))))"

text \<open>
  Two properties of scikit-learn that the script relies on and does not check. The column
  transformer returns one row for each row of its input. \<^verbatim>\<open>train_test_split\<close> selects
  rows by position: the train and the test positions together are each position exactly
  once, and every array is indexed by the same positions.
\<close>

definition row_preserving ::
  "(column_transformer \<Rightarrow> 'v frame \<Rightarrow> py_error + 'f list list) \<Rightarrow> bool" where
  "row_preserving ft \<longleftrightarrow>
     (\<forall>ct df X. ft ct df = Inr X \<longrightarrow> length X = length (rows df))"

definition splits_by_position ::
  "('x list \<Rightarrow> 'y list \<Rightarrow> 'f \<Rightarrow> nat \<Rightarrow> py_error + ('x list \<times> 'x list \<times> 'y list \<times> 'y list))
     \<Rightarrow> bool" where
  "splits_by_position tts \<longleftrightarrow>
     (\<forall>X y test_size random_state X_train X_test y_train y_test.
        tts X y test_size random_state = Inr (X_train, X_test, y_train, y_test) \<longrightarrow>
        length X = length y \<longrightarrow>
        (\<exists>train test.
           mset (train @ test) = mset [0..<length X] \<and>
           X_train = map ((!) X) train \<and> X_test = map ((!) X) test \<and>
           y_train = map ((!) y) train \<and> y_test = map ((!) y) test))"

section \<open>The training entry point of \<^verbatim>\<open>train_and_deploy.py\<close>\<close>

definition training_data_directory :: string where
  "training_data_directory = ''/opt/ml/input/data/train''"

definition train_and_deploy ::
  "('b, 'v, 'f, 'm, 'p) py_lib \<Rightarrow> 'b fs \<Rightarrow> 'b fs \<times> py_error option" where
  "train_and_deploy lib fs =
     (let train_features_data = os_path_join training_data_directory ''train_features.csv'';
          train_labels_data = os_path_join training_data_directory ''train_labels.csv''
      in case pd_read_csv lib False fs train_features_data of
           Inl e \<Rightarrow> (fs, Some e)
         | Inr X_train \<Rightarrow>
             (case pd_read_csv lib False fs train_labels_data of
                Inl e \<Rightarrow> (fs, Some e)
              | Inr y_train \<Rightarrow>
                  (case fit lib (LogisticRegression ''balanced'' ''lbfgs'') X_train y_train of
                     Inl e \<Rightarrow> (fs, Some e)
                   | Inr model \<Rightarrow>
                       (let model_output_directory = os_path_join ''/opt/ml/model'' ''model.joblib''
                        in (fs(model_output_directory \<mapsto> joblib_dump lib model), None)))))"

section \<open>\<^verbatim>\<open>evaluate.py\<close>\<close>

text \<open>\<^verbatim>\<open>d[key] = v\<close> on the items of a dictionary: an existing key keeps its place.\<close>

fun setitem_py :: "string \<Rightarrow> 'a \<Rightarrow> (string \<times> 'a) list \<Rightarrow> (string \<times> 'a) list" where
  "setitem_py key v [] = [(key, v)]"
| "setitem_py key v (kv # kvs) =
     (if fst kv = key then (key, v) # kvs else kv # setitem_py key v kvs)"

text \<open>Writing the extracted members of an archive, in order.\<close>

fun write_all :: "'b fs \<Rightarrow> (string \<times> 'b) list \<Rightarrow> 'b fs" where
  "write_all fs [] = fs"
| "write_all fs (pb # pbs) = write_all (fs(fst pb \<mapsto> snd pb)) pbs"

definition evaluate ::
  "('b, 'v, 'f, 'm, 'p) py_lib \<Rightarrow> 'b fs \<Rightarrow> 'b fs \<times> py_error option" where
  "evaluate lib fs =
     (let model_path = os_path_join ''/opt/ml/processing/model'' ''model.tar.gz''
      in case (case fs model_path of
                 None \<Rightarrow> Inl (FileNotFoundError model_path)
               | Some tar \<Rightarrow> tar_extractall lib tar) of
           Inl e \<Rightarrow> (fs, Some e)
         | Inr members \<Rightarrow>
             (let fs1 = write_all fs members
              in case (case fs1 ''model.joblib'' of
                         None \<Rightarrow> Inl (FileNotFoundError ''model.joblib'')
                       | Some b \<Rightarrow> joblib_load lib b) of
                   Inl e \<Rightarrow> (fs1, Some e)
                 | Inr model \<Rightarrow>
                     (let test_features_data =
                            os_path_join ''/opt/ml/processing/test'' ''test_features.csv'';
                          test_labels_data =
                            os_path_join ''/opt/ml/processing/test'' ''test_labels.csv''
                      in case pd_read_csv lib False fs1 test_features_data of
                           Inl e \<Rightarrow> (fs1, Some e)
                         | Inr X_test \<Rightarrow>
                             (case pd_read_csv lib False fs1 test_labels_data of
                                Inl e \<Rightarrow> (fs1, Some e)
                              | Inr y_test \<Rightarrow>
                                  (case predict lib model X_test of
                                     Inl e \<Rightarrow> (fs1, Some e)
                                   | Inr predictions \<Rightarrow>
                                       (case classification_report lib y_test predictions True of
                                          Inl e \<Rightarrow> (fs1, Some e)
                                        | Inr report0 \<Rightarrow>
                                            (case accuracy_score lib y_test predictions of
                                               Inl e \<Rightarrow> (fs1, Some e)
                                             | Inr acc \<Rightarrow>
                                                 (let report = setitem_py ''accuracy'' (JNum acc) report0;
                                                      eval_output_path =
                                                        os_path_join ''/opt/ml/processing/evaluation''
                                                          ''evaluation.json''
                                                  in (fs1(eval_output_path \<mapsto>
                                                          text_file lib (json_dumps lib (JObj report))),
                                                      None)))))))))"

section \<open>A small instance of the serving interface\<close>

text \<open>
  Three doubles with their \<^verbatim>\<open>repr\<close> and the texts \<^verbatim>\<open>float\<close> reads them from, one JSON
  document, and an endpoint that answers every request with \<^verbatim>\<open>['Male']\<close>. They instantiate
  the library parameters where a theorem is exercised on a concrete input.
\<close>

definition demo_float :: "string \<Rightarrow> rat option" where
  "demo_float s =
     (if s = ''1.5'' then Some (3 / 2)
      else if s = ''-2.0'' then Some (- 2)
      else if s = ''0.25'' then Some (1 / 4)
      else None)"

text \<open>\<^verbatim>\<open>np.array\<close> as numpy 1.24 has it: rows of unequal length are refused.\<close>

definition demo_np_array :: "rat list list \<Rightarrow> py_error + rat list list" where
  "demo_np_array samples =
     (if list_all (\<lambda>row. length row = length (hd samples)) samples then Inr samples
      else Inl (LibraryError ''inhomogeneous shape''))"

definition demo_str :: "rat json \<Rightarrow> string" where
  "demo_str v =
     (case v of
        JNum x \<Rightarrow>
          (if x = 3 / 2 then ''1.5'' else if x = - 2 then ''-2.0''
           else if x = 1 / 4 then ''0.25'' else ''nan'')
      | _ \<Rightarrow> ''None'')"

definition demo_loads :: "string \<Rightarrow> py_error + rat json" where
  "demo_loads s =
     (if s = ''[[1.5, -2.0], [0.25]]''
      then Inr (JArr [JArr [JNum (3 / 2), JNum (- 2)], JArr [JNum (1 / 4)]])
      else Inl (JSONDecodeError s))"

definition demo_env :: "rat lambda_env" where
  "demo_env =
     \<lparr>endpoint_name = ''penguins'',
      invoke_endpoint = (\<lambda>req. Inr ''['Male']''),
      json_loads = demo_loads,
      str_py = demo_str\<rparr>"

definition demo_event :: "rat json" where
  "demo_event = JObj [(''data'', JStr ''[[1.5, -2.0], [0.25]]'')]"

section \<open>A small instance of the scripts' library interface\<close>

text \<open>
  File contents that record what was stored, and library calls that answer on them: the
  CSV parser returns the frame a file holds, the column transformer marks the cells equal
  to \<^verbatim>\<open>Adelie\<close>, the split puts the first row in the test set, fitting returns the
  estimator it was given. Both the transformer and the split raise on no rows. They
  instantiate the library parameters where a theorem is exercised on a concrete input.
\<close>

datatype demo_file =
    CsvText "string frame"
  | FrameCsv "rat list list" bool bool
  | SeriesCsv "string option list" bool bool
  | Joblib estimator
  | TarGz "(string \<times> demo_file) list"
  | Text string

definition demo_lib :: "(demo_file, string, rat, estimator, string list) py_lib" where
  "demo_lib =
     \<lparr>double = (\<lambda>q. q),
      parse_csv = (\<lambda>header b.
         case b of CsvText df \<Rightarrow> Inr df | _ \<Rightarrow> Inl (LibraryError ''ParserError'')),
      fit_transform = (\<lambda>ct df.
         if rows df = [] then Inl (LibraryError ''Found array with 0 sample(s)'')
         else Inr (map (\<lambda>r. map (\<lambda>c. if c = Some ''Adelie'' then 1 else 0) r) (rows df))),
      train_test_split = (\<lambda>X y test_size random_state.
         if X = [] then Inl (LibraryError ''n_samples=0'')
         else Inr (drop 1 X, take 1 X, drop 1 y, take 1 y)),
      frame_to_csv = FrameCsv,
      series_to_csv = SeriesCsv,
      fit = (\<lambda>est X y. Inr est),
      joblib_dump = Joblib,
      joblib_load = (\<lambda>b.
         case b of Joblib m \<Rightarrow> Inr m | _ \<Rightarrow> Inl (LibraryError ''UnpicklingError'')),
      tar_extractall = (\<lambda>b.
         case b of TarGz ms \<Rightarrow> Inr ms | _ \<Rightarrow> Inl (LibraryError ''ReadError'')),
      predict = (\<lambda>m X. Inr (map (\<lambda>r. ''male'') (rows X))),
      classification_report = (\<lambda>y p output_dict.
         Inr [(''male'', JObj [(''precision'', JNum (1 / 2))]), (''macro avg'', JObj [])]),
      accuracy_score = (\<lambda>y p. Inr (1 / 2)),
      json_dumps = (\<lambda>v. case v of JObj kvs \<Rightarrow> join_py '','' (map fst kvs) | _ \<Rightarrow> ''null''),
      text_file = Text\<rparr>"

text \<open>
  Four penguins: the second has missing cells, the fourth repeats the first on the selected
  columns.
\<close>

definition demo_penguins :: "string frame" where
  "demo_penguins =
     \<lparr>col_names = [''species'', ''island'', ''bill_length_mm'', ''bill_depth_mm'',
                   ''flipper_length_mm'', ''body_mass_g'', ''sex'', ''year''],
      rows = [[Some ''Adelie'', Some ''Torgersen'', Some ''39.1'', Some ''18.7'', Some ''181'',
               Some ''3750'', Some ''male'', Some ''2007''],
              [Some ''Adelie'', Some ''Torgersen'', None, None, None, None, None, Some ''2007''],
              [Some ''Gentoo'', Some ''Biscoe'', Some ''46.1'', Some ''13.2'', Some ''211'',
               Some ''4500'', Some ''female'', Some ''2007''],
              [Some ''Adelie'', Some ''Torgersen'', Some ''39.1'', Some ''18.7'', Some ''181'',
               Some ''3700'', Some ''male'', Some ''2008'']]\<rparr>"

definition demo_fs :: "demo_file fs" where
  "demo_fs = [''/opt/ml/processing/input/penguins.csv'' \<mapsto> CsvText demo_penguins]"

definition demo_train_fs :: "demo_file fs" where
  "demo_train_fs =
     [''/opt/ml/input/data/train/train_features.csv'' \<mapsto>
        CsvText \<lparr>col_names = [''0''], rows = [[Some ''1.0''], [Some ''0.0'']]\<rparr>,
      ''/opt/ml/input/data/train/train_labels.csv'' \<mapsto>
        CsvText \<lparr>col_names = [''0''], rows = [[Some ''male''], [Some ''female'']]\<rparr>]"

definition demo_eval_fs :: "demo_file fs" where
  "demo_eval_fs =
     [''/opt/ml/processing/model/model.tar.gz'' \<mapsto>
        TarGz [(''model.joblib'', Joblib (LogisticRegression ''balanced'' ''lbfgs''))],
      ''/opt/ml/processing/test/test_features.csv'' \<mapsto>
        CsvText \<lparr>col_names = [''0''], rows = [[Some ''1.0'']]\<rparr>,
      ''/opt/ml/processing/test/test_labels.csv'' \<mapsto>
        CsvText \<lparr>col_names = [''0''], rows = [[Some ''male'']]\<rparr>]"

section \<open>String lemmas\<close>

text \<open>A split has at least one field: the empty case of \<open>split_py\<close> is never taken.\<close>

lemma split_py_not_Nil: "split_py sep s \<noteq> []"
  by (induction s) (auto split: list.splits)




lemma butlast_concat_sep:
  "ls \<noteq> [] \<Longrightarrow> butlast (concat (map (\<lambda>l. l @ [c]) ls)) = join_py [c] ls"
proof (induction "[c]" ls rule: join_py.induct)
  case 1
  then show ?case by simp
next
  case (2 x)
  then show ?case by simp
next
  case (3 x y ys)
  then show ?case by (simp add: butlast_append)
qed


lemma strip_py_unchanged:
  assumes "s = [] \<or> (hd s \<notin> set chars \<and> last s \<notin> set chars)"
  shows "strip_py chars s = s"
proof (cases s)
  case Nil
  then show ?thesis by (simp add: strip_py_def)
next
  case (Cons c cs)
  with assms have h: "hd s \<notin> set chars" and l: "last s \<notin> set chars" by auto
  from Cons h have 1: "dropWhile (\<lambda>c. c \<in> set chars) s = s" by simp
  from Cons have "s \<noteq> []" by simp
  with l have "hd (rev s) \<notin> set chars" using hd_rev[of s] by simp
  with Cons have 2: "dropWhile (\<lambda>c. c \<in> set chars) (rev s) = rev s"
    by (cases "rev s") auto
  show ?thesis by (simp add: strip_py_def 1 2)
qed

section \<open>The formatting loop and the parsing loop\<close>

lemma join_sample_arr: "join_sample str (JArr ns) = Inr (join_py '','' (map str ns))"
  by (simp add: join_sample_def)

lemma body_loop_arrs:
  "body_loop str (map JArr nss) body =
     Inr (body @ concat (map (\<lambda>ns. join_py '','' (map str ns) @ ''|'') nss))"
  by (induction nss arbitrary: body) (simp_all add: join_sample_arr)

lemma format_body_arrs:
  "nss \<noteq> [] \<Longrightarrow>
   format_body str (JArr (map JArr nss)) =
     Inr (join_py ''|'' (map (\<lambda>ns. join_py '','' (map str ns)) nss))"
  using butlast_concat_sep[of "map (\<lambda>ns. join_py '','' (map str ns)) nss" "CHR ''|''"]
  by (simp add: format_body_def body_loop_arrs comp_def)

lemma map_float_Inl_iff:
  "(\<exists>e. map_float fl ss = Inl e) \<longleftrightarrow> (\<exists>s\<in>set ss. fl s = None)"
  by (induction ss) (auto split: option.splits sum.splits)

lemma map_float_Inr_iff:
  "map_float fl ss = Inr xs \<longleftrightarrow>
     (\<forall>s\<in>set ss. fl s \<noteq> None) \<and> xs = map (\<lambda>s. the (fl s)) ss"
proof (induction ss arbitrary: xs)
  case Nil
  then show ?case by auto
next
  case (Cons s ss)
  show ?case
  proof (cases "fl s")
    case None
    then show ?thesis by auto
  next
    case (Some x)
    show ?thesis
    proof (cases "map_float fl ss")
      case (Inl e)
      then have "\<exists>t\<in>set ss. fl t = None"
        using map_float_Inl_iff[of fl ss] by blast
      with Some Inl show ?thesis by auto
    next
      case (Inr ys)
      with Some Cons.IH[of ys] show ?thesis by auto
    qed
  qed
qed

lemma input_loop_Inr_iff:
  "input_loop fl rs acc = Inr out \<longleftrightarrow>
     (\<forall>r\<in>set rs. \<forall>f\<in>set (split_py CHR '','' r). fl f \<noteq> None) \<and>
     out = acc @ map (\<lambda>r. map (\<lambda>f. the (fl f)) (split_py CHR '','' r)) rs"
proof (induction rs arbitrary: acc)
  case Nil
  then show ?case by auto
next
  case (Cons r rs)
  show ?case
  proof (cases "map_float fl (split_py CHR '','' r)")
    case (Inl e)
    then have "\<exists>s\<in>set (split_py CHR '','' r). fl s = None"
      using map_float_Inl_iff[of fl "split_py CHR '','' r"] by blast
    with Inl show ?thesis by auto
  next
    case (Inr xs)
    then have ok: "\<forall>s\<in>set (split_py CHR '','' r). fl s \<noteq> None"
      and xs: "xs = map (\<lambda>s. the (fl s)) (split_py CHR '','' r)"
      using map_float_Inr_iff[of fl "split_py CHR '','' r" xs] by blast+
    show ?thesis using Inr ok xs Cons.IH[of "acc @ [xs]"] by auto
  qed
qed

lemma map_float_Inl:
  "map_float fl ss = Inl e \<Longrightarrow> \<exists>s\<in>set ss. e = FloatValueError s \<and> fl s = None"
  by (induction ss) (auto split: option.splits sum.splits)

lemma input_loop_Inl:
  "input_loop fl rs acc = Inl e \<Longrightarrow>
     \<exists>r\<in>set rs. \<exists>fld\<in>set (split_py CHR '','' r). e = FloatValueError fld \<and> fl fld = None"
proof (induction rs arbitrary: acc)
  case Nil
  then show ?case by simp
next
  case (Cons r rs)
  show ?case
  proof (cases "map_float fl (split_py CHR '','' r)")
    case (Inl e')
    with Cons.prems have "e' = e" by simp
    with Inl map_float_Inl[of fl "split_py CHR '','' r" e] show ?thesis by auto
  next
    case (Inr xs)
    with Cons.prems have "input_loop fl rs (acc @ [xs]) = Inl e" by simp
    from Cons.IH[OF this] show ?thesis by auto
  qed
qed

lemma lambda_handler_cases:
  "(\<exists>e. lambda_handler env event = ([], Inl e)) \<or>
   (\<exists>req e. lambda_handler env event = ([req], Inl e) \<and> invoke_endpoint env req = Inl e) \<or>
   (\<exists>req response. lambda_handler env event =
        ([req], Inr (strip_py [CHR 0x27] (strip_py ''[]'' response))) \<and>
      invoke_endpoint env req = Inr response)"
  by (auto simp: lambda_handler_def Let_def split: sum.splits json.splits)

section \<open>Paths, frames and the runs of the scripts\<close>

lemma path_simps:
  "train_features_output_path = ''/opt/ml/processing/train/train_features.csv''"
  "test_features_output_path = ''/opt/ml/processing/test/test_features.csv''"
  "train_labels_output_path = ''/opt/ml/processing/train/train_labels.csv''"
  "test_labels_output_path = ''/opt/ml/processing/test/test_labels.csv''"
  "os_path_join ''/opt/ml/processing/input'' ''penguins.csv'' = ''/opt/ml/processing/input/penguins.csv''"
  "os_path_join training_data_directory ''train_features.csv'' = ''/opt/ml/input/data/train/train_features.csv''"
  "os_path_join training_data_directory ''train_labels.csv'' = ''/opt/ml/input/data/train/train_labels.csv''"
  "os_path_join ''/opt/ml/model'' ''model.joblib'' = ''/opt/ml/model/model.joblib''"
  "os_path_join ''/opt/ml/processing/model'' ''model.tar.gz'' = ''/opt/ml/processing/model/model.tar.gz''"
  "os_path_join ''/opt/ml/processing/test'' ''test_features.csv'' = ''/opt/ml/processing/test/test_features.csv''"
  "os_path_join ''/opt/ml/processing/test'' ''test_labels.csv'' = ''/opt/ml/processing/test/test_labels.csv''"
  "os_path_join ''/opt/ml/processing/evaluation'' ''evaluation.json'' = ''/opt/ml/processing/evaluation/evaluation.json''"
  by (simp_all add: train_features_output_path_def test_features_output_path_def
      train_labels_output_path_def test_labels_output_path_def os_path_join_def
      training_data_directory_def)

lemma preprocessing_completes_iff:
  "preprocessing lib arg fs = (fs', None) \<longleftrightarrow>
   (\<exists>blob df0 feature_df X y X_train X_test y_train y_test.
      fs ''/opt/ml/processing/input/penguins.csv'' = Some blob \<and>
      parse_csv lib True blob = Inr df0 \<and>
      drop_column target (drop_duplicates (dropna (select_columns columns df0))) = Inr feature_df \<and>
      fit_transform lib preprocess_pipeline feature_df = Inr X \<and>
      get_column target (drop_duplicates (dropna (select_columns columns df0))) = Inr y \<and>
      train_test_split lib X y (case arg of None \<Rightarrow> double lib (3 / 10) | Some v \<Rightarrow> v) 42 =
        Inr (X_train, X_test, y_train, y_test) \<and>
      fs' = fs(''/opt/ml/processing/train/train_features.csv'' \<mapsto> frame_to_csv lib X_train False False,
               ''/opt/ml/processing/test/test_features.csv'' \<mapsto> frame_to_csv lib X_test False False,
               ''/opt/ml/processing/train/train_labels.csv'' \<mapsto> series_to_csv lib y_train False False,
               ''/opt/ml/processing/test/test_labels.csv'' \<mapsto> series_to_csv lib y_test False False))"
  by (auto simp: preprocessing_def pd_read_csv_def Let_def path_simps
      split: option.splits sum.splits prod.splits)

lemma train_and_deploy_completes_iff:
  "train_and_deploy lib fs = (fs', None) \<longleftrightarrow>
   (\<exists>bX bY X_train y_train model.
      fs ''/opt/ml/input/data/train/train_features.csv'' = Some bX \<and>
      parse_csv lib False bX = Inr X_train \<and>
      fs ''/opt/ml/input/data/train/train_labels.csv'' = Some bY \<and>
      parse_csv lib False bY = Inr y_train \<and>
      fit lib (LogisticRegression ''balanced'' ''lbfgs'') X_train y_train = Inr model \<and>
      fs' = fs(''/opt/ml/model/model.joblib'' \<mapsto> joblib_dump lib model))"
  by (auto simp: train_and_deploy_def pd_read_csv_def Let_def path_simps
      split: option.splits sum.splits)

lemma evaluate_completes_iff:
  "evaluate lib fs = (fs', None) \<longleftrightarrow>
   (\<exists>tar members bM model bX bY X_test y_test predictions report0 acc.
      fs ''/opt/ml/processing/model/model.tar.gz'' = Some tar \<and>
      tar_extractall lib tar = Inr members \<and>
      write_all fs members ''model.joblib'' = Some bM \<and>
      joblib_load lib bM = Inr model \<and>
      write_all fs members ''/opt/ml/processing/test/test_features.csv'' = Some bX \<and>
      parse_csv lib False bX = Inr X_test \<and>
      write_all fs members ''/opt/ml/processing/test/test_labels.csv'' = Some bY \<and>
      parse_csv lib False bY = Inr y_test \<and>
      predict lib model X_test = Inr predictions \<and>
      classification_report lib y_test predictions True = Inr report0 \<and>
      accuracy_score lib y_test predictions = Inr acc \<and>
      fs' = (write_all fs members)(''/opt/ml/processing/evaluation/evaluation.json'' \<mapsto>
              text_file lib (json_dumps lib (JObj (setitem_py ''accuracy'' (JNum acc) report0)))))"
  by (auto simp: evaluate_def pd_read_csv_def Let_def path_simps
      split: option.splits sum.splits)

lemma keep_first_set: "set (keep_first seen rs) = set rs - set seen"
  by (induction rs arbitrary: seen) auto

lemma keep_first_distinct: "distinct (keep_first seen rs)"
  by (induction rs arbitrary: seen) (auto simp: keep_first_set)

lemma cleaned_col_names:
  "col_names (drop_duplicates (dropna (select_columns cols df0))) = cols"
  by (simp add: drop_duplicates_def dropna_def select_columns_def)

lemma cleaned_rows_set:
  "set (rows (drop_duplicates (dropna (select_columns cols df0)))) =
     {r \<in> set (rows (select_columns cols df0)). None \<notin> set r}"
  by (auto simp: drop_duplicates_def dropna_def keep_first_set)

lemma cleaned_rows_distinct:
  "distinct (rows (drop_duplicates (dropna (select_columns cols df0))))"
  by (simp add: drop_duplicates_def keep_first_distinct)

lemma cleaned_rows_length:
  "length (rows (drop_duplicates (dropna (select_columns cols df0)))) =
     card {r \<in> set (rows (select_columns cols df0)). None \<notin> set r}"
  using cleaned_rows_set[of cols df0] distinct_card[OF cleaned_rows_distinct, of cols df0]
  by simp

lemma cleaned_row_length:
  "r \<in> set (rows (drop_duplicates (dropna (select_columns cols df0)))) \<Longrightarrow> length r = length cols"
  unfolding cleaned_rows_set by (auto simp: select_columns_def)

lemma target_in_columns: "target \<in> set columns"
  by (simp add: columns_def)

lemma list6: "length r = 6 \<Longrightarrow> \<exists>a b c d e f. r = [a, b, c, d, e, f]"
  by (auto simp: eval_nat_numeral length_Suc_conv)

lemma drop_target_row:
  "length r = 6 \<Longrightarrow> map snd (filter (\<lambda>nv. fst nv \<noteq> target) (zip columns r)) = take 5 r"
  by (drule list6) (auto simp: columns_def features_def target_def)

lemma get_target_row:
  "length r = 6 \<Longrightarrow>
   (case map_of (zip columns r) target of None \<Rightarrow> None | Some v \<Rightarrow> v) = r ! 5"
  by (drule list6) (auto simp: columns_def features_def target_def)

lemma length_columns: "length columns = 6"
  by (simp add: columns_def features_def)

lemma drop_column_cleaned_eq:
  "drop_column target (drop_duplicates (dropna (select_columns columns df0))) =
     Inr \<lparr>col_names = features,
          rows = map (take 5) (rows (drop_duplicates (dropna (select_columns columns df0))))\<rparr>"
proof -
  let ?df = "drop_duplicates (dropna (select_columns columns df0))"
  have "map (\<lambda>r. map snd (filter (\<lambda>nv. fst nv \<noteq> target) (zip columns r))) (rows ?df) =
          map (take 5) (rows ?df)"
    by (intro map_cong refl drop_target_row) (simp add: cleaned_row_length length_columns)
  moreover have "filter (\<lambda>n. n \<noteq> target) columns = features"
    by (simp add: columns_def features_def target_def)
  ultimately show ?thesis
    by (simp add: drop_column_def cleaned_col_names target_in_columns)
qed

lemma get_column_cleaned_eq:
  "get_column target (drop_duplicates (dropna (select_columns columns df0))) =
     Inr (map (\<lambda>r. r ! 5) (rows (drop_duplicates (dropna (select_columns columns df0)))))"
proof -
  let ?df = "drop_duplicates (dropna (select_columns columns df0))"
  have "map (\<lambda>r. case map_of (zip columns r) target of None \<Rightarrow> None | Some v \<Rightarrow> v) (rows ?df) =
          map (\<lambda>r. r ! 5) (rows ?df)"
    by (intro map_cong refl get_target_row) (simp add: cleaned_row_length length_columns)
  then show ?thesis
    by (simp add: get_column_def cleaned_col_names target_in_columns)
qed

lemma preprocessing_raises:
  assumes "preprocessing lib arg fs = (fs', Some e)"
  shows "fs' = fs \<and>
         ((fs ''/opt/ml/processing/input/penguins.csv'' = None \<and>
           e = FileNotFoundError ''/opt/ml/processing/input/penguins.csv'') \<or>
          (\<exists>blob. fs ''/opt/ml/processing/input/penguins.csv'' = Some blob \<and>
                  parse_csv lib True blob = Inl e) \<or>
          (\<exists>df. fit_transform lib preprocess_pipeline df = Inl e) \<or>
          (\<exists>X y. train_test_split lib X y
                    (case arg of None \<Rightarrow> double lib (3 / 10) | Some v \<Rightarrow> v) 42 = Inl e))"
  using assms
  by (auto simp: preprocessing_def pd_read_csv_def Let_def path_simps
      drop_column_cleaned_eq get_column_cleaned_eq
      split: option.splits sum.splits prod.splits)

lemma train_and_deploy_raises:
  assumes "train_and_deploy lib fs = (fs', Some e)"
  shows "fs' = fs \<and>
         ((\<exists>path. fs path = None \<and> e = FileNotFoundError path) \<or>
          (\<exists>blob. parse_csv lib False blob = Inl e) \<or>
          (\<exists>X y. fit lib (LogisticRegression ''balanced'' ''lbfgs'') X y = Inl e))"
  using assms
  by (auto simp: train_and_deploy_def pd_read_csv_def Let_def path_simps
      split: option.splits sum.splits)

lemma write_all_other: "path \<notin> fst ` set members \<Longrightarrow> write_all fs members path = fs path"
  by (induction members arbitrary: fs) auto

lemma setitem_py_map_of: "map_of (setitem_py key v kvs) = (map_of kvs)(key \<mapsto> v)"
  by (induction kvs) (auto simp: fun_eq_iff)

lemma evaluate_raises:
  assumes "evaluate lib fs = (fs', Some e)"
  shows "fs' = fs \<or>
         (\<exists>tar members. fs ''/opt/ml/processing/model/model.tar.gz'' = Some tar \<and>
            tar_extractall lib tar = Inr members \<and> fs' = write_all fs members)"
  using assms
  by (auto simp: evaluate_def pd_read_csv_def Let_def path_simps
      split: option.splits sum.splits)

lemma pipeline_simp:
  "preprocess_pipeline =
     [([''bill_length_mm'', ''bill_depth_mm'', ''flipper_length_mm''], StandardScaler),
      ([''species'', ''island''], OneHotEncoder False)]"
  by (simp add: preprocess_pipeline_def)

lemma preprocessing_frame:
  assumes "path \<noteq> ''/opt/ml/processing/train/train_features.csv''"
    and "path \<noteq> ''/opt/ml/processing/test/test_features.csv''"
    and "path \<noteq> ''/opt/ml/processing/train/train_labels.csv''"
    and "path \<noteq> ''/opt/ml/processing/test/test_labels.csv''"
  shows "fst (preprocessing lib arg fs) path = fs path"
proof -
  obtain fs1 r where run: "preprocessing lib arg fs = (fs1, r)"
    by (cases "preprocessing lib arg fs")
  show ?thesis
  proof (cases r)
    case None
    with run assms show ?thesis
      using preprocessing_completes_iff[of lib arg fs fs1] by auto
  next
    case (Some e)
    with run preprocessing_raises[of lib arg fs fs1 e] show ?thesis by simp
  qed
qed

section \<open>The small instance of the library interface\<close>

lemma demo_preprocessing_run:
  "preprocessing demo_lib None demo_fs =
     (demo_fs(''/opt/ml/processing/train/train_features.csv'' \<mapsto> FrameCsv [[0, 0, 0, 0, 0]] False False,
              ''/opt/ml/processing/test/test_features.csv'' \<mapsto> FrameCsv [[0, 0, 0, 1, 0]] False False,
              ''/opt/ml/processing/train/train_labels.csv'' \<mapsto> SeriesCsv [Some ''female''] False False,
              ''/opt/ml/processing/test/test_labels.csv'' \<mapsto> SeriesCsv [Some ''male''] False False),
      None)"
  by (simp add: preprocessing_def demo_lib_def demo_fs_def demo_penguins_def pd_read_csv_def path_simps
      select_columns_def columns_def features_def target_def dropna_def drop_duplicates_def
      drop_column_def get_column_def preprocess_pipeline_def Let_def)

lemma demo_lib_row_preserving: "row_preserving (fit_transform demo_lib)"
  by (auto simp: row_preserving_def demo_lib_def split: if_splits)

lemma drop1_nth: "drop (Suc 0) xs = map ((!) xs) [Suc 0..<length xs]"
  by (intro nth_equalityI) simp_all

lemma take1_nth: "xs \<noteq> [] \<Longrightarrow> take (Suc 0) xs = map ((!) xs) [0]"
  by (cases xs) simp_all

lemma demo_lib_splits_by_position: "splits_by_position (train_test_split demo_lib)"
  unfolding splits_by_position_def
proof (intro allI impI)
  fix X :: "rat list list" and y :: "string option list" and test_size :: rat
    and random_state :: nat and X_train X_test y_train y_test
  assume split: "train_test_split demo_lib X y test_size random_state =
                   Inr (X_train, X_test, y_train, y_test)"
    and len: "length X = length y"
  from split have X: "X \<noteq> []" and out: "X_train = drop 1 X" "X_test = take 1 X"
      "y_train = drop 1 y" "y_test = take 1 y"
    by (auto simp: demo_lib_def split: if_splits)
  from X len have y: "y \<noteq> []" by auto
  have "mset ([Suc 0..<length X] @ [0]) = mset [0..<length X]"
    using X by (simp add: upt_conv_Cons)
  moreover have "X_train = map ((!) X) [Suc 0..<length X]" "y_train = map ((!) y) [Suc 0..<length X]"
    using out len drop1_nth[of X] drop1_nth[of y] by simp_all
  moreover have "X_test = map ((!) X) [0]" "y_test = map ((!) y) [0]"
    using out X y take1_nth[of X] take1_nth[of y] by simp_all
  ultimately show "\<exists>train test.
           mset (train @ test) = mset [0..<length X] \<and>
           X_train = map ((!) X) train \<and> X_test = map ((!) X) test \<and>
           y_train = map ((!) y) train \<and> y_test = map ((!) y) test"
    by blast
qed

section \<open>Claims about the serving path\<close>

text \<open>
  C3. For every event whose \<^verbatim>\<open>'data'\<close> field is a JSON string that decodes to a non-empty
  list of samples, each a list of numbers, \<^verbatim>\<open>lambda_handler\<close> sends exactly one request to
  the endpoint: its content type is \<^verbatim>\<open>text/csv\<close> and its body is the \<^verbatim>\<open>str\<close> of each
  sample's values joined by \<^verbatim>\<open>,\<close>, the samples joined by \<^verbatim>\<open>|\<close>, with no separator after
  the last sample.
\<close>

theorem lambda_handler_request:
  assumes data: "getitem_py event ''data'' = Inr (JStr s)"
    and payload: "json_loads env s = Inr (JArr (map (\<lambda>ns. JArr (map JNum ns)) samples))"
    and nonempty: "samples \<noteq> []"
  shows "fst (lambda_handler env event) =
           [\<lparr>EndpointName = endpoint_name env, ContentType = ''text/csv'',
             Body = join_py ''|''
                      (map (\<lambda>ns. join_py '','' (map (\<lambda>n. str_py env (JNum n)) ns)) samples)\<rparr>]"
proof -
  have "format_body (str_py env) (JArr (map JArr (map (map JNum) samples))) =
          Inr (join_py ''|'' (map (\<lambda>ns. join_py '','' (map (str_py env) ns)) (map (map JNum) samples)))"
    using nonempty by (intro format_body_arrs) simp
  then have fmt: "format_body (str_py env) (JArr (map (\<lambda>ns. JArr (map JNum ns)) samples)) =
          Inr (join_py ''|'' (map (\<lambda>ns. join_py '','' (map (\<lambda>n. str_py env (JNum n)) ns)) samples))"
    by (simp add: comp_def)
  show ?thesis
    by (simp add: lambda_handler_def data payload fmt Let_def split: sum.splits)
qed

text \<open>C3 on the event \<^verbatim>\<open>{"data": "[[1.5, -2.0], [0.25]]"}\<close>.\<close>

theorem lambda_handler_request_witness:
  "getitem_py demo_event ''data'' = Inr (JStr ''[[1.5, -2.0], [0.25]]'') \<and>
   json_loads demo_env ''[[1.5, -2.0], [0.25]]'' =
     Inr (JArr (map (\<lambda>ns. JArr (map JNum ns)) [[3 / 2, - 2], [1 / 4]])) \<and>
   fst (lambda_handler demo_env demo_event) =
     [\<lparr>EndpointName = ''penguins'', ContentType = ''text/csv'', Body = ''1.5,-2.0|0.25''\<rparr>]"
proof -
  have d: "getitem_py demo_event ''data'' = Inr (JStr ''[[1.5, -2.0], [0.25]]'')"
    by (simp add: demo_event_def)
  have p: "json_loads demo_env ''[[1.5, -2.0], [0.25]]'' =
     Inr (JArr (map (\<lambda>ns. JArr (map JNum ns)) [[3 / 2, - 2], [1 / 4]]))"
    by (simp add: demo_env_def demo_loads_def)
  have n: "[[3 / 2, - 2], [1 / 4 :: rat]] \<noteq> []" by simp
  show ?thesis
    using lambda_handler_request[OF d p n] d p
    by (simp add: demo_env_def demo_str_def)
qed



text \<open>
  C9. Under \<^verbatim>\<open>text/csv\<close>, \<^verbatim>\<open>input_fn\<close> raises on the empty body (\<^verbatim>\<open>float('')\<close> raises) and
  whenever some field between the \<^verbatim>\<open>|\<close> and \<^verbatim>\<open>,\<close> separators is rejected by \<^verbatim>\<open>float\<close>, with
  the \<^verbatim>\<open>ValueError\<close> of \<^verbatim>\<open>float\<close> on such a field; it returns an array only when every field
  parses, and the array is then the one \<^verbatim>\<open>np.array\<close> builds from the parsed fields row by
  row.
\<close>

theorem input_fn_text_csv:
  "(float_py [] = None \<longrightarrow> (\<exists>e. input_fn float_py np_array [] ''text/csv'' = Inl e)) \<and>
   ((\<exists>r\<in>set (split_py CHR ''|'' body). \<exists>fld\<in>set (split_py CHR '','' r). float_py fld = None) \<longrightarrow>
      (\<exists>fld. input_fn float_py np_array body ''text/csv'' = Inl (FloatValueError fld) \<and>
             float_py fld = None)) \<and>
   (\<forall>arr. input_fn float_py np_array body ''text/csv'' = Inr arr \<longrightarrow>
      (\<forall>r\<in>set (split_py CHR ''|'' body). \<forall>fld\<in>set (split_py CHR '','' r). float_py fld \<noteq> None) \<and>
      np_array (map (\<lambda>r. map (\<lambda>fld. the (float_py fld)) (split_py CHR '','' r))
                    (split_py CHR ''|'' body)) = Inr arr)"
proof (intro conjI impI allI)
  assume "float_py [] = None"
  then show "\<exists>e. input_fn float_py np_array [] ''text/csv'' = Inl e"
    by (simp add: input_fn_def)
next
  assume bad: "\<exists>r\<in>set (split_py CHR ''|'' body). \<exists>fld\<in>set (split_py CHR '','' r). float_py fld = None"
  show "\<exists>fld. input_fn float_py np_array body ''text/csv'' = Inl (FloatValueError fld) \<and>
             float_py fld = None"
  proof (cases "input_loop float_py (split_py CHR ''|'' body) []")
    case (Inl e)
    from input_loop_Inl[OF this] Inl show ?thesis
      by (auto simp: input_fn_def)
  next
    case (Inr out)
    with bad input_loop_Inr_iff[of float_py "split_py CHR ''|'' body" "[]" out]
    show ?thesis by blast
  qed
next
  fix arr
  assume ret: "input_fn float_py np_array body ''text/csv'' = Inr arr"
  then obtain samples where loop: "input_loop float_py (split_py CHR ''|'' body) [] = Inr samples"
    and arr: "np_array samples = Inr arr"
    by (auto simp: input_fn_def split: sum.splits)
  from loop show "\<forall>r\<in>set (split_py CHR ''|'' body). \<forall>fld\<in>set (split_py CHR '','' r). float_py fld \<noteq> None"
    using input_loop_Inr_iff[of float_py "split_py CHR ''|'' body" "[]" samples] by simp
  from loop have "samples = map (\<lambda>r. map (\<lambda>fld. the (float_py fld)) (split_py CHR '','' r))
                (split_py CHR ''|'' body)"
    using input_loop_Inr_iff[of float_py "split_py CHR ''|'' body" "[]" samples] by simp
  with arr show "np_array (map (\<lambda>r. map (\<lambda>fld. the (float_py fld)) (split_py CHR '','' r))
                    (split_py CHR ''|'' body)) = Inr arr"
    by simp
qed

text \<open>C9 on the empty body, on a body with the field \<^verbatim>\<open>abc\<close>, and on a well-formed body.\<close>

theorem input_fn_text_csv_witness:
  "demo_float [] = None \<and>
   input_fn demo_float demo_np_array [] ''text/csv'' = Inl (FloatValueError []) \<and>
   demo_float ''abc'' = None \<and>
   input_fn demo_float demo_np_array ''1.5,abc|0.25'' ''text/csv'' = Inl (FloatValueError ''abc'') \<and>
   input_fn demo_float demo_np_array ''1.5,0.25|0.25,-2.0'' ''text/csv'' =
     Inr [[3 / 2, 1 / 4], [1 / 4, - 2]]"
  using input_fn_text_csv[of demo_float demo_np_array "''1.5,abc|0.25''"]
  by (simp add: demo_float_def demo_np_array_def input_fn_def)

text \<open>
  C2, as the code has it. \<^verbatim>\<open>lambda_handler\<close> returns a value exactly when its one request to
  the endpoint is answered, and the value is the decoded response body after
  \<^verbatim>\<open>.strip("[]")\<close> and then \<^verbatim>\<open>.strip("'")\<close>: the brackets and then the quotes at both ends are
  removed. A body that neither starts nor ends with a bracket or a quote is returned as it
  is.
\<close>

theorem lambda_handler_label:
  "(snd (lambda_handler env event) = Inr label \<longleftrightarrow>
      (\<exists>req response.
         fst (lambda_handler env event) = [req] \<and>
         invoke_endpoint env req = Inr response \<and>
         label = strip_py [CHR 0x27] (strip_py ''[]'' response))) \<and>
   (\<forall>response.
      response = [] \<or>
      (hd response \<notin> set (''[]'' @ [CHR 0x27]) \<and> last response \<notin> set (''[]'' @ [CHR 0x27])) \<longrightarrow>
      strip_py [CHR 0x27] (strip_py ''[]'' response) = response)"
proof (intro conjI allI impI)
  show "snd (lambda_handler env event) = Inr label \<longleftrightarrow>
      (\<exists>req response.
         fst (lambda_handler env event) = [req] \<and>
         invoke_endpoint env req = Inr response \<and>
         label = strip_py [CHR 0x27] (strip_py ''[]'' response))"
    using lambda_handler_cases[of env event] by auto
next
  fix response :: string
  assume "response = [] \<or>
      (hd response \<notin> set (''[]'' @ [CHR 0x27]) \<and> last response \<notin> set (''[]'' @ [CHR 0x27]))"
  then have "strip_py ''[]'' response = response" "strip_py [CHR 0x27] response = response"
    by (auto intro!: strip_py_unchanged)
  then show "strip_py [CHR 0x27] (strip_py ''[]'' response) = response"
    by simp
qed

text \<open>C2 as amended, on the endpoint that answers \<^verbatim>\<open>['Male']\<close>.\<close>

theorem lambda_handler_label_witness:
  "fst (lambda_handler demo_env demo_event) =
     [\<lparr>EndpointName = ''penguins'', ContentType = ''text/csv'', Body = ''1.5,-2.0|0.25''\<rparr>] \<and>
   invoke_endpoint demo_env
     \<lparr>EndpointName = ''penguins'', ContentType = ''text/csv'', Body = ''1.5,-2.0|0.25''\<rparr> =
     Inr ''['Male']'' \<and>
   snd (lambda_handler demo_env demo_event) = Inr ''Male'' \<and>
   strip_py [CHR 0x27] (strip_py ''[]'' ''Male'') = ''Male''"
  using lambda_handler_label[of demo_env demo_event "''Male''"]
  by (simp add: lambda_handler_def demo_env_def demo_event_def demo_loads_def demo_str_def
      format_body_def join_sample_def strip_py_def)

text \<open>
  The claim as written, that the returned value is the decoded response body unchanged,
  fails there: the endpoint answers \<^verbatim>\<open>['Male']\<close> and the handler returns \<^verbatim>\<open>Male\<close>.
\<close>

theorem lambda_handler_label_counterexample:
  "invoke_endpoint demo_env
     \<lparr>EndpointName = ''penguins'', ContentType = ''text/csv'', Body = ''1.5,-2.0|0.25''\<rparr> =
     Inr ''['Male']'' \<and>
   lambda_handler demo_env demo_event =
     ([\<lparr>EndpointName = ''penguins'', ContentType = ''text/csv'', Body = ''1.5,-2.0|0.25''\<rparr>],
      Inr ''Male'') \<and>
   ''Male'' \<noteq> ''['Male']''"
  by (simp add: lambda_handler_def demo_env_def demo_event_def demo_loads_def demo_str_def
      format_body_def join_sample_def strip_py_def)

section \<open>Claims about the scripts\<close>

text \<open>
  C5. The preprocessing script completes exactly when the input file exists and none of
  its library calls raises. It then has applied, to the selected, cleaned columns without
  \<^verbatim>\<open>sex\<close>, the column transformer that gives the three numeric features to
  \<^verbatim>\<open>StandardScaler\<close> and \<^verbatim>\<open>species\<close> and \<^verbatim>\<open>island\<close> to a dense \<^verbatim>\<open>OneHotEncoder\<close>; it has
  split the transformed features and the \<^verbatim>\<open>sex\<close> labels with \<^verbatim>\<open>test_size\<close> equal to the
  \<^verbatim>\<open>--train-test-split\<close> argument, \<^verbatim>\<open>0.3\<close> when none is given; and it has written the four
  parts with \<^verbatim>\<open>header=False, index=False\<close> to four distinct files: train features, test
  features, train labels, test labels. No other path changes, and a run that raises writes
  nothing.
\<close>

theorem preprocessing_outputs:
  "(preprocessing lib arg fs = (fs', None) \<longleftrightarrow>
      (\<exists>blob df0 feature_df X y X_train X_test y_train y_test.
         fs ''/opt/ml/processing/input/penguins.csv'' = Some blob \<and>
         parse_csv lib True blob = Inr df0 \<and>
         drop_column ''sex'' (drop_duplicates (dropna (select_columns columns df0))) = Inr feature_df \<and>
         fit_transform lib
           [([''bill_length_mm'', ''bill_depth_mm'', ''flipper_length_mm''], StandardScaler),
            ([''species'', ''island''], OneHotEncoder False)] feature_df = Inr X \<and>
         get_column ''sex'' (drop_duplicates (dropna (select_columns columns df0))) = Inr y \<and>
         train_test_split lib X y (case arg of None \<Rightarrow> double lib (3 / 10) | Some v \<Rightarrow> v) 42 =
           Inr (X_train, X_test, y_train, y_test) \<and>
         fs' = fs(''/opt/ml/processing/train/train_features.csv'' \<mapsto> frame_to_csv lib X_train False False,
                  ''/opt/ml/processing/test/test_features.csv'' \<mapsto> frame_to_csv lib X_test False False,
                  ''/opt/ml/processing/train/train_labels.csv'' \<mapsto> series_to_csv lib y_train False False,
                  ''/opt/ml/processing/test/test_labels.csv'' \<mapsto> series_to_csv lib y_test False False))) \<and>
   (\<forall>e. preprocessing lib arg fs = (fs', Some e) \<longrightarrow> fs' = fs) \<and>
   (\<forall>path. path \<notin> {''/opt/ml/processing/train/train_features.csv'',
                     ''/opt/ml/processing/test/test_features.csv'',
                     ''/opt/ml/processing/train/train_labels.csv'',
                     ''/opt/ml/processing/test/test_labels.csv''} \<longrightarrow>
      fst (preprocessing lib arg fs) path = fs path) \<and>
   (preprocessing lib arg fs = (fs', None) \<longrightarrow>
      dom fs' = dom fs \<union> {''/opt/ml/processing/train/train_features.csv'',
                            ''/opt/ml/processing/test/test_features.csv'',
                            ''/opt/ml/processing/train/train_labels.csv'',
                            ''/opt/ml/processing/test/test_labels.csv''}) \<and>
   card {''/opt/ml/processing/train/train_features.csv'',
         ''/opt/ml/processing/test/test_features.csv'',
         ''/opt/ml/processing/train/train_labels.csv'',
         ''/opt/ml/processing/test/test_labels.csv''} = 4"
proof (intro conjI allI impI)
  show "preprocessing lib arg fs = (fs', None) \<longleftrightarrow>
      (\<exists>blob df0 feature_df X y X_train X_test y_train y_test.
         fs ''/opt/ml/processing/input/penguins.csv'' = Some blob \<and>
         parse_csv lib True blob = Inr df0 \<and>
         drop_column ''sex'' (drop_duplicates (dropna (select_columns columns df0))) = Inr feature_df \<and>
         fit_transform lib
           [([''bill_length_mm'', ''bill_depth_mm'', ''flipper_length_mm''], StandardScaler),
            ([''species'', ''island''], OneHotEncoder False)] feature_df = Inr X \<and>
         get_column ''sex'' (drop_duplicates (dropna (select_columns columns df0))) = Inr y \<and>
         train_test_split lib X y (case arg of None \<Rightarrow> double lib (3 / 10) | Some v \<Rightarrow> v) 42 =
           Inr (X_train, X_test, y_train, y_test) \<and>
         fs' = fs(''/opt/ml/processing/train/train_features.csv'' \<mapsto> frame_to_csv lib X_train False False,
                  ''/opt/ml/processing/test/test_features.csv'' \<mapsto> frame_to_csv lib X_test False False,
                  ''/opt/ml/processing/train/train_labels.csv'' \<mapsto> series_to_csv lib y_train False False,
                  ''/opt/ml/processing/test/test_labels.csv'' \<mapsto> series_to_csv lib y_test False False))"
    using preprocessing_completes_iff[of lib arg fs fs']
    unfolding pipeline_simp target_def .
next
  fix e
  assume "preprocessing lib arg fs = (fs', Some e)"
  then show "fs' = fs"
    using preprocessing_raises by blast
next
  fix path :: string
  assume "path \<notin> {''/opt/ml/processing/train/train_features.csv'',
                     ''/opt/ml/processing/test/test_features.csv'',
                     ''/opt/ml/processing/train/train_labels.csv'',
                     ''/opt/ml/processing/test/test_labels.csv''}"
  then show "fst (preprocessing lib arg fs) path = fs path"
    by (intro preprocessing_frame) simp_all
next
  assume "preprocessing lib arg fs = (fs', None)"
  then obtain b1 b2 b3 b4 where
    "fs' = fs(''/opt/ml/processing/train/train_features.csv'' \<mapsto> b1,
              ''/opt/ml/processing/test/test_features.csv'' \<mapsto> b2,
              ''/opt/ml/processing/train/train_labels.csv'' \<mapsto> b3,
              ''/opt/ml/processing/test/test_labels.csv'' \<mapsto> b4)"
    using preprocessing_completes_iff[of lib arg fs fs'] by auto
  then show "dom fs' = dom fs \<union> {''/opt/ml/processing/train/train_features.csv'',
                            ''/opt/ml/processing/test/test_features.csv'',
                            ''/opt/ml/processing/train/train_labels.csv'',
                            ''/opt/ml/processing/test/test_labels.csv''}"
    by auto
next
  show "card {''/opt/ml/processing/train/train_features.csv'',
         ''/opt/ml/processing/test/test_features.csv'',
         ''/opt/ml/processing/train/train_labels.csv'',
         ''/opt/ml/processing/test/test_labels.csv''} = 4"
    by simp
qed

text \<open>C5 on the four penguins, with no \<^verbatim>\<open>--train-test-split\<close> argument.\<close>

theorem preprocessing_outputs_witness:
  "preprocessing demo_lib None demo_fs =
     (demo_fs(''/opt/ml/processing/train/train_features.csv'' \<mapsto> FrameCsv [[0, 0, 0, 0, 0]] False False,
              ''/opt/ml/processing/test/test_features.csv'' \<mapsto> FrameCsv [[0, 0, 0, 1, 0]] False False,
              ''/opt/ml/processing/train/train_labels.csv'' \<mapsto> SeriesCsv [Some ''female''] False False,
              ''/opt/ml/processing/test/test_labels.csv'' \<mapsto> SeriesCsv [Some ''male''] False False),
      None) \<and>
   dom (fst (preprocessing demo_lib None demo_fs)) =
     {''/opt/ml/processing/input/penguins.csv'',
      ''/opt/ml/processing/train/train_features.csv'',
      ''/opt/ml/processing/test/test_features.csv'',
      ''/opt/ml/processing/train/train_labels.csv'',
      ''/opt/ml/processing/test/test_labels.csv''}"
proof -
  note run = demo_preprocessing_run
  have "dom (fst (preprocessing demo_lib None demo_fs)) = dom demo_fs \<union>
     {''/opt/ml/processing/train/train_features.csv'',
      ''/opt/ml/processing/test/test_features.csv'',
      ''/opt/ml/processing/train/train_labels.csv'',
      ''/opt/ml/processing/test/test_labels.csv''}"
    using preprocessing_outputs[of demo_lib None demo_fs "fst (preprocessing demo_lib None demo_fs)"] run
    by simp
  then show ?thesis
    using run by (auto simp: demo_fs_def)
qed

text \<open>
  C6. The evaluation script completes exactly when the archive, the extracted model and the
  two test files load and none of the library calls raises. It then has written to
  \<^verbatim>\<open>/opt/ml/processing/evaluation/evaluation.json\<close> the \<^verbatim>\<open>json.dumps\<close> of the classification
  report of the loaded model's predictions against the test labels, in which the key
  \<^verbatim>\<open>accuracy\<close> holds the accuracy score of the same predictions and every other key holds
  what the report gave it. Any other path whose content the run changes is a member that the
  extraction of the model archive wrote.
\<close>

theorem evaluate_metrics_file:
  "(evaluate lib fs = (fs', None) \<longleftrightarrow>
      (\<exists>tar members bM model bX bY X_test y_test predictions report0 acc.
         fs ''/opt/ml/processing/model/model.tar.gz'' = Some tar \<and>
         tar_extractall lib tar = Inr members \<and>
         write_all fs members ''model.joblib'' = Some bM \<and>
         joblib_load lib bM = Inr model \<and>
         write_all fs members ''/opt/ml/processing/test/test_features.csv'' = Some bX \<and>
         parse_csv lib False bX = Inr X_test \<and>
         write_all fs members ''/opt/ml/processing/test/test_labels.csv'' = Some bY \<and>
         parse_csv lib False bY = Inr y_test \<and>
         predict lib model X_test = Inr predictions \<and>
         classification_report lib y_test predictions True = Inr report0 \<and>
         accuracy_score lib y_test predictions = Inr acc \<and>
         fs' = (write_all fs members)(''/opt/ml/processing/evaluation/evaluation.json'' \<mapsto>
                 text_file lib (json_dumps lib (JObj (setitem_py ''accuracy'' (JNum acc) report0)))))) \<and>
   (\<forall>acc report0.
      map_of (setitem_py ''accuracy'' (JNum acc) report0) ''accuracy'' = Some (JNum acc :: 'f json) \<and>
      (\<forall>key. key \<noteq> ''accuracy'' \<longrightarrow>
         map_of (setitem_py ''accuracy'' (JNum acc) report0) key = map_of report0 key)) \<and>
   (\<forall>path. path \<noteq> ''/opt/ml/processing/evaluation/evaluation.json'' \<longrightarrow>
      fst (evaluate lib fs) path = fs path \<or>
      (\<exists>tar members. fs ''/opt/ml/processing/model/model.tar.gz'' = Some tar \<and>
         tar_extractall lib tar = Inr members \<and> path \<in> fst ` set members))"
proof (intro conjI allI impI)
  show "evaluate lib fs = (fs', None) \<longleftrightarrow>
      (\<exists>tar members bM model bX bY X_test y_test predictions report0 acc.
         fs ''/opt/ml/processing/model/model.tar.gz'' = Some tar \<and>
         tar_extractall lib tar = Inr members \<and>
         write_all fs members ''model.joblib'' = Some bM \<and>
         joblib_load lib bM = Inr model \<and>
         write_all fs members ''/opt/ml/processing/test/test_features.csv'' = Some bX \<and>
         parse_csv lib False bX = Inr X_test \<and>
         write_all fs members ''/opt/ml/processing/test/test_labels.csv'' = Some bY \<and>
         parse_csv lib False bY = Inr y_test \<and>
         predict lib model X_test = Inr predictions \<and>
         classification_report lib y_test predictions True = Inr report0 \<and>
         accuracy_score lib y_test predictions = Inr acc \<and>
         fs' = (write_all fs members)(''/opt/ml/processing/evaluation/evaluation.json'' \<mapsto>
                 text_file lib (json_dumps lib (JObj (setitem_py ''accuracy'' (JNum acc) report0)))))"
    by (rule evaluate_completes_iff)
next
  fix acc :: 'f and report0 :: "(string \<times> 'f json) list"
  show "map_of (setitem_py ''accuracy'' (JNum acc) report0) ''accuracy'' = Some (JNum acc)"
    by (simp add: setitem_py_map_of)
next
  fix acc :: 'f and report0 :: "(string \<times> 'f json) list" and key :: string
  assume "key \<noteq> ''accuracy''"
  then show "map_of (setitem_py ''accuracy'' (JNum acc) report0) key = map_of report0 key"
    by (simp add: setitem_py_map_of)
next
  fix path :: string
  assume other: "path \<noteq> ''/opt/ml/processing/evaluation/evaluation.json''"
  obtain fs1 r where run: "evaluate lib fs = (fs1, r)"
    by (cases "evaluate lib fs")
  have "fs1 path = fs path \<or>
      (\<exists>tar members. fs ''/opt/ml/processing/model/model.tar.gz'' = Some tar \<and>
         tar_extractall lib tar = Inr members \<and> path \<in> fst ` set members)"
  proof (cases r)
    case None
    with run obtain tar members b where tar: "fs ''/opt/ml/processing/model/model.tar.gz'' = Some tar"
      and members: "tar_extractall lib tar = Inr members"
      and fs1: "fs1 = (write_all fs members)(''/opt/ml/processing/evaluation/evaluation.json'' \<mapsto> b)"
      using evaluate_completes_iff[of lib fs fs1] by auto
    show ?thesis
    proof (cases "path \<in> fst ` set members")
      case True
      with tar members show ?thesis by blast
    next
      case False
      with fs1 other show ?thesis by (simp add: write_all_other)
    qed
  next
    case (Some e)
    with run evaluate_raises[of lib fs fs1 e]
    consider "fs1 = fs"
      | tar members where "fs ''/opt/ml/processing/model/model.tar.gz'' = Some tar"
          "tar_extractall lib tar = Inr members" "fs1 = write_all fs members"
      by blast
    then show ?thesis
    proof cases
      case 1
      then show ?thesis by simp
    next
      case 2
      then show ?thesis
        by (cases "path \<in> fst ` set members") (auto simp: write_all_other)
    qed
  qed
  with run show "fst (evaluate lib fs) path = fs path \<or>
      (\<exists>tar members. fs ''/opt/ml/processing/model/model.tar.gz'' = Some tar \<and>
         tar_extractall lib tar = Inr members \<and> path \<in> fst ` set members)"
    by simp
qed

text \<open>C6 on an archive holding \<^verbatim>\<open>model.joblib\<close> and one test row.\<close>

theorem evaluate_metrics_file_witness:
  "evaluate demo_lib demo_eval_fs =
     (demo_eval_fs(''model.joblib'' \<mapsto> Joblib (LogisticRegression ''balanced'' ''lbfgs''),
                   ''/opt/ml/processing/evaluation/evaluation.json'' \<mapsto> Text ''male,macro avg,accuracy''),
      None) \<and>
   setitem_py ''accuracy'' (JNum (1 / 2 :: rat)) [(''accuracy'', JNum 0), (''macro avg'', JObj [])] =
     [(''accuracy'', JNum (1 / 2)), (''macro avg'', JObj [])]"
  using evaluate_metrics_file[of demo_lib demo_eval_fs
      "demo_eval_fs(''model.joblib'' \<mapsto> Joblib (LogisticRegression ''balanced'' ''lbfgs''),
                   ''/opt/ml/processing/evaluation/evaluation.json'' \<mapsto> Text ''male,macro avg,accuracy'')"]
  by (simp add: evaluate_def demo_lib_def demo_eval_fs_def pd_read_csv_def path_simps)

text \<open>
  C7. The training script completes exactly when the two training files exist and parse and
  the fit does not raise. It then has fitted \<^verbatim>\<open>LogisticRegression(class_weight="balanced",
  solver="lbfgs")\<close> on the features and labels it read and stored the \<^verbatim>\<open>joblib\<close> dump of that
  fitted model under \<^verbatim>\<open>/opt/ml/model/model.joblib\<close>. No other path changes, and a run that
  raises writes nothing.
\<close>

theorem train_and_deploy_artifact:
  "(train_and_deploy lib fs = (fs', None) \<longleftrightarrow>
      (\<exists>bX bY X_train y_train model.
         fs ''/opt/ml/input/data/train/train_features.csv'' = Some bX \<and>
         parse_csv lib False bX = Inr X_train \<and>
         fs ''/opt/ml/input/data/train/train_labels.csv'' = Some bY \<and>
         parse_csv lib False bY = Inr y_train \<and>
         fit lib (LogisticRegression ''balanced'' ''lbfgs'') X_train y_train = Inr model \<and>
         fs' = fs(''/opt/ml/model/model.joblib'' \<mapsto> joblib_dump lib model))) \<and>
   (\<forall>e. train_and_deploy lib fs = (fs', Some e) \<longrightarrow> fs' = fs) \<and>
   (\<forall>path. path \<noteq> ''/opt/ml/model/model.joblib'' \<longrightarrow> fst (train_and_deploy lib fs) path = fs path)"
proof (intro conjI allI impI)
  show "train_and_deploy lib fs = (fs', None) \<longleftrightarrow>
      (\<exists>bX bY X_train y_train model.
         fs ''/opt/ml/input/data/train/train_features.csv'' = Some bX \<and>
         parse_csv lib False bX = Inr X_train \<and>
         fs ''/opt/ml/input/data/train/train_labels.csv'' = Some bY \<and>
         parse_csv lib False bY = Inr y_train \<and>
         fit lib (LogisticRegression ''balanced'' ''lbfgs'') X_train y_train = Inr model \<and>
         fs' = fs(''/opt/ml/model/model.joblib'' \<mapsto> joblib_dump lib model))"
    by (rule train_and_deploy_completes_iff)
next
  fix e
  assume "train_and_deploy lib fs = (fs', Some e)"
  then show "fs' = fs"
    using train_and_deploy_raises by blast
next
  fix path :: string
  assume other: "path \<noteq> ''/opt/ml/model/model.joblib''"
  obtain fs1 r where run: "train_and_deploy lib fs = (fs1, r)"
    by (cases "train_and_deploy lib fs")
  show "fst (train_and_deploy lib fs) path = fs path"
  proof (cases r)
    case None
    with run obtain b where "fs1 = fs(''/opt/ml/model/model.joblib'' \<mapsto> b)"
      using train_and_deploy_completes_iff[of lib fs fs1] by auto
    with run other show ?thesis by simp
  next
    case (Some e)
    with run train_and_deploy_raises[of lib fs fs1 e] show ?thesis by simp
  qed
qed

text \<open>C7 on two training rows, and on a container without the training files.\<close>

theorem train_and_deploy_artifact_witness:
  "train_and_deploy demo_lib demo_train_fs =
     (demo_train_fs(''/opt/ml/model/model.joblib'' \<mapsto> Joblib (LogisticRegression ''balanced'' ''lbfgs'')),
      None) \<and>
   train_and_deploy demo_lib Map.empty =
     (Map.empty, Some (FileNotFoundError ''/opt/ml/input/data/train/train_features.csv''))"
  using train_and_deploy_artifact[of demo_lib demo_train_fs
      "demo_train_fs(''/opt/ml/model/model.joblib'' \<mapsto> Joblib (LogisticRegression ''balanced'' ''lbfgs''))"]
  by (simp add: train_and_deploy_def demo_lib_def demo_train_fs_def pd_read_csv_def path_simps)

text \<open>
  C8. With a column transformer that returns one row per input row and a split that selects
  rows by position, a completed run of the preprocessing script has cleaned before it
  transformed and split: the cleaned rows are those of the selected six columns without a
  missing cell, each once, and the transformer is given their five feature cells; the train and the test positions are disjoint
  and together are every position of the cleaned rows once; the four files hold the
  transformed rows and the \<^verbatim>\<open>sex\<close> cells at these positions; and the two row counts add
  up to the number of distinct complete rows.
\<close>

theorem preprocessing_partition:
  assumes ft: "row_preserving (fit_transform lib)"
    and tts: "splits_by_position (train_test_split lib)"
    and run: "preprocessing lib arg fs = (fs', None)"
  shows "\<exists>blob df0 df X y train test.
      fs ''/opt/ml/processing/input/penguins.csv'' = Some blob \<and>
      parse_csv lib True blob = Inr df0 \<and>
      df = drop_duplicates (dropna (select_columns columns df0)) \<and>
      set (rows df) = {r \<in> set (rows (select_columns columns df0)). None \<notin> set r} \<and>
      distinct (rows df) \<and>
      fit_transform lib preprocess_pipeline
        \<lparr>col_names = features, rows = map (take 5) (rows df)\<rparr> = Inr X \<and>
      length X = length (rows df) \<and>
      y = map (\<lambda>r. r ! 5) (rows df) \<and>
      mset (train @ test) = mset [0..<length (rows df)] \<and>
      set train \<inter> set test = {} \<and>
      fs' ''/opt/ml/processing/train/train_features.csv'' =
        Some (frame_to_csv lib (map ((!) X) train) False False) \<and>
      fs' ''/opt/ml/processing/test/test_features.csv'' =
        Some (frame_to_csv lib (map ((!) X) test) False False) \<and>
      fs' ''/opt/ml/processing/train/train_labels.csv'' =
        Some (series_to_csv lib (map ((!) y) train) False False) \<and>
      fs' ''/opt/ml/processing/test/test_labels.csv'' =
        Some (series_to_csv lib (map ((!) y) test) False False) \<and>
      length train + length test =
        card {r \<in> set (rows (select_columns columns df0)). None \<notin> set r}"
proof -
  from run obtain blob df0 feature_df X y X_train X_test y_train y_test where
    blob: "fs ''/opt/ml/processing/input/penguins.csv'' = Some blob"
    and df0: "parse_csv lib True blob = Inr df0"
    and feature_df: "drop_column target (drop_duplicates (dropna (select_columns columns df0))) =
                       Inr feature_df"
    and X: "fit_transform lib preprocess_pipeline feature_df = Inr X"
    and y: "get_column target (drop_duplicates (dropna (select_columns columns df0))) = Inr y"
    and split: "train_test_split lib X y (case arg of None \<Rightarrow> double lib (3 / 10) | Some v \<Rightarrow> v) 42 =
                  Inr (X_train, X_test, y_train, y_test)"
    and fs': "fs' = fs(''/opt/ml/processing/train/train_features.csv'' \<mapsto> frame_to_csv lib X_train False False,
               ''/opt/ml/processing/test/test_features.csv'' \<mapsto> frame_to_csv lib X_test False False,
               ''/opt/ml/processing/train/train_labels.csv'' \<mapsto> series_to_csv lib y_train False False,
               ''/opt/ml/processing/test/test_labels.csv'' \<mapsto> series_to_csv lib y_test False False)"
    using preprocessing_completes_iff[of lib arg fs fs'] by blast
  define df where "df = drop_duplicates (dropna (select_columns columns df0))"
  have feature_df_eq: "feature_df = \<lparr>col_names = features, rows = map (take 5) (rows df)\<rparr>"
    using feature_df by (simp add: drop_column_cleaned_eq df_def)
  have y_eq: "y = map (\<lambda>r. r ! 5) (rows df)"
    using y by (simp add: get_column_cleaned_eq df_def)
  have len_X: "length X = length (rows df)"
    using ft X feature_df_eq by (auto simp: row_preserving_def)
  have len_y: "length X = length y"
    using len_X y_eq by simp
  from tts split len_y obtain train test where
    part: "mset (train @ test) = mset [0..<length X]"
    and out: "X_train = map ((!) X) train" "X_test = map ((!) X) test"
      "y_train = map ((!) y) train" "y_test = map ((!) y) test"
    unfolding splits_by_position_def by blast
  have "distinct (train @ test)"
    using part mset_eq_imp_distinct_iff[of "train @ test" "[0..<length X]"] by simp
  then have disjoint: "set train \<inter> set test = {}"
    by simp
  have "length (train @ test) = length [0..<length X]"
    using part mset_eq_length by blast
  then have count: "length train + length test =
      card {r \<in> set (rows (select_columns columns df0)). None \<notin> set r}"
    using len_X cleaned_rows_length[of columns df0] by (simp add: df_def)
  have files:
    "fs' ''/opt/ml/processing/train/train_features.csv'' =
        Some (frame_to_csv lib (map ((!) X) train) False False)"
    "fs' ''/opt/ml/processing/test/test_features.csv'' =
        Some (frame_to_csv lib (map ((!) X) test) False False)"
    "fs' ''/opt/ml/processing/train/train_labels.csv'' =
        Some (series_to_csv lib (map ((!) y) train) False False)"
    "fs' ''/opt/ml/processing/test/test_labels.csv'' =
        Some (series_to_csv lib (map ((!) y) test) False False)"
    using fs' out by simp_all
  have cleaned: "set (rows df) = {r \<in> set (rows (select_columns columns df0)). None \<notin> set r}"
    "distinct (rows df)"
    by (simp_all add: df_def cleaned_rows_set cleaned_rows_distinct)
  show ?thesis
    using blob df0 df_def cleaned X[unfolded feature_df_eq] len_X y_eq part[unfolded len_X]
      disjoint files count
    by blast
qed

text \<open>C8 on the four penguins: two distinct complete rows, one in each part.\<close>

theorem preprocessing_partition_witness:
  "row_preserving (fit_transform demo_lib) \<and>
   splits_by_position (train_test_split demo_lib) \<and>
   preprocessing demo_lib None demo_fs =
     (demo_fs(''/opt/ml/processing/train/train_features.csv'' \<mapsto> FrameCsv [[0, 0, 0, 0, 0]] False False,
              ''/opt/ml/processing/test/test_features.csv'' \<mapsto> FrameCsv [[0, 0, 0, 1, 0]] False False,
              ''/opt/ml/processing/train/train_labels.csv'' \<mapsto> SeriesCsv [Some ''female''] False False,
              ''/opt/ml/processing/test/test_labels.csv'' \<mapsto> SeriesCsv [Some ''male''] False False),
      None) \<and>
   rows (drop_duplicates (dropna (select_columns columns demo_penguins))) =
     [[Some ''39.1'', Some ''18.7'', Some ''181'', Some ''Adelie'', Some ''Torgersen'', Some ''male''],
      [Some ''46.1'', Some ''13.2'', Some ''211'', Some ''Gentoo'', Some ''Biscoe'', Some ''female'']]"
proof -
  have cleaned: "rows (drop_duplicates (dropna (select_columns columns demo_penguins))) =
     [[Some ''39.1'', Some ''18.7'', Some ''181'', Some ''Adelie'', Some ''Torgersen'', Some ''male''],
      [Some ''46.1'', Some ''13.2'', Some ''211'', Some ''Gentoo'', Some ''Biscoe'', Some ''female'']]"
    by (simp add: demo_penguins_def select_columns_def columns_def features_def target_def
        dropna_def drop_duplicates_def)
  from preprocessing_partition[OF demo_lib_row_preserving demo_lib_splits_by_position
      demo_preprocessing_run]
  have "\<exists>train test. mset (train @ test) = mset [0..<length (rows (drop_duplicates (dropna (select_columns columns demo_penguins))))]"
    by (auto simp: demo_fs_def demo_lib_def)
  with cleaned show ?thesis
    using demo_lib_row_preserving demo_lib_splits_by_position demo_preprocessing_run by simp
qed

section \<open>Validation in the scripts and in the serving function\<close>




end
